theory Spec2Isabelle
  imports Main "HOL-Library.Word"
begin

section \<open>Python values handled by \<open>webex_assistant_sdk/helpers.py\<close>\<close>

text \<open>
  The values that flow through \<open>helpers.py\<close> are what \<open>json.loads\<close> produces and what
  \<open>json.dumps\<close> accepts. Python's \<open>None\<close> is \<open>JNull\<close>. A \<open>dict\<close> is an association list
  in insertion order, looked up with \<open>map_of\<close>. A float is kept as mantissa and exponent
  (only whether it is zero matters below).
\<close>

type_synonym bytes = "8 word list"

datatype json =
    JNull
  | JBool bool
  | JInt int
  | JFloat int int
  | JStr string
  | JArr "json list"
  | JObj "(string \<times> json) list"

text \<open>Truth value of an object, as tested by \<open>not x\<close> and \<open>x or y\<close>.\<close>

fun truthy :: "json \<Rightarrow> bool" where
  "truthy JNull = False"
| "truthy (JBool b) = b"
| "truthy (JInt i) = (i \<noteq> 0)"
| "truthy (JFloat m e) = (m \<noteq> 0)"
| "truthy (JStr s) = (s \<noteq> [])"
| "truthy (JArr xs) = (xs \<noteq> [])"
| "truthy (JObj kvs) = (kvs \<noteq> [])"

section \<open>Exceptions\<close>

text \<open>
  Only instances of \<open>Exception\<close> are modelled (the root class \<open>PyException\<close>); interrupts
  of the interpreter are outside the model. \<open>Derived n c\<close> is any further class, named
  \<open>n\<close>, whose base class is \<open>c\<close>: whatever a collaborator raises is an exception
  of some class of this type.
\<close>

datatype exn_class =
    PyException
  | RequestValidationError
  | SignatureValidationError
  | ServerChallengeValidationError
  | ResponseValidationError
  | ClientChallengeValidationError
  | InvalidSignature
  | JSONDecodeError
  | AttributeError
  | Derived string exn_class

text \<open>Library classes met below: \<open>ValueError\<close>, \<open>TypeError\<close> and \<open>binascii.Error\<close>.\<close>

definition ValueError :: exn_class where
  "ValueError = Derived ''ValueError'' PyException"

definition TypeError :: exn_class where
  "TypeError = Derived ''TypeError'' PyException"

definition binascii_Error :: exn_class where
  "binascii_Error = Derived ''binascii.Error'' ValueError"

text \<open>
  Modelled from the spec: the module \<open>exceptions.py\<close>, which declares the classes that
  \<open>helpers.py\<close> imports, is not among the sources. The spec names the class tree
  (ServerChallengeValidationError, ClientChallengeValidationError,
  SignatureValidationError, RequestValidationError, ResponseValidationError), calls
  RequestValidationError the umbrella of the inbound failures, and says that the
  recognized kinds pass the handler \<open>except RequestValidationError: raise\<close> unchanged:
  so SignatureValidationError and ServerChallengeValidationError derive from
  RequestValidationError. Nothing is said of the bases of the two outbound classes,
  which are put under \<open>Exception\<close>. The list gives a class and its ancestors.
\<close>

primrec superclasses :: "exn_class \<Rightarrow> exn_class list" where
  "superclasses PyException = [PyException]"
| "superclasses RequestValidationError = [RequestValidationError, PyException]"
| "superclasses SignatureValidationError =
     [SignatureValidationError, RequestValidationError, PyException]"
| "superclasses ServerChallengeValidationError =
     [ServerChallengeValidationError, RequestValidationError, PyException]"
| "superclasses ResponseValidationError = [ResponseValidationError, PyException]"
| "superclasses ClientChallengeValidationError = [ClientChallengeValidationError, PyException]"
| "superclasses InvalidSignature = [InvalidSignature, PyException]"
| "superclasses JSONDecodeError = [JSONDecodeError, ValueError, PyException]"
| "superclasses AttributeError = [AttributeError, PyException]"
| "superclasses (Derived n c) = Derived n c # superclasses c"

text \<open>An exception object: its class, its message, and the cause set by \<open>raise ... from\<close>.\<close>

datatype exn = Exn (exn_cls: exn_class) (exn_msg: string) (exn_cause: "exn option")

definition isinstance :: "exn \<Rightarrow> exn_class \<Rightarrow> bool" where
  "isinstance e c = (c \<in> set (superclasses (exn_cls e)))"

section \<open>Runs: the calls made to \<open>crypto\<close>, and the outcome\<close>

text \<open>
  A run is the list of calls to the \<open>crypto\<close> module made so far, in order, with either
  the exception raised (\<open>Inl\<close>) or the value computed (\<open>Inr\<close>).
\<close>

datatype 'k event =
    VerifyCall string bytes bytes
  | DecryptCall 'k json

type_synonym ('k, 'a) run = "'k event list \<times> (exn + 'a)"

definition ret :: "'a \<Rightarrow> ('k, 'a) run" where
  "ret a = ([], Inr a)"

definition raise :: "exn \<Rightarrow> ('k, 'a) run" where
  "raise e = ([], Inl e)"

text \<open>A step without a call to \<open>crypto\<close>.\<close>

definition pure_step :: "exn + 'a \<Rightarrow> ('k, 'a) run" where
  "pure_step r = ([], r)"

text \<open>A call to \<open>crypto\<close>: it is recorded whether it returns or raises.\<close>

definition crypto_call :: "'k event \<Rightarrow> exn + 'a \<Rightarrow> ('k, 'a) run" where
  "crypto_call ev r = ([ev], r)"

text \<open>Sequencing of statements: an exception skips what follows.\<close>

definition seq :: "('k, 'a) run \<Rightarrow> ('a \<Rightarrow> ('k, 'b) run) \<Rightarrow> ('k, 'b) run" where
  "seq m f =
     (case m of
        (l, Inl e) \<Rightarrow> (l, Inl e)
      | (l, Inr a) \<Rightarrow> (case f a of (l', r) \<Rightarrow> (l @ l', r)))"

text \<open>\<open>try: m  except ... as exc: h exc\<close>, where \<open>h\<close> re-raises what no clause matches.\<close>

definition try_except :: "('k, 'a) run \<Rightarrow> (exn \<Rightarrow> ('k, 'a) run) \<Rightarrow> ('k, 'a) run" where
  "try_except m h =
     (case m of
        (l, Inl e) \<Rightarrow> (case h e of (l', r) \<Rightarrow> (l @ l', r))
      | (l, Inr a) \<Rightarrow> (l, Inr a))"

section \<open>Collaborators of inbound validation\<close>

text \<open>
  The library functions and the \<open>crypto\<close> module (not among the sources) are parameters.
  Each returns a value or raises. \<open>b64decode\<close> receives whatever value the envelope
  holds under \<open>signature\<close>; \<open>decrypt\<close> receives the value held under \<open>message\<close>.
\<close>

record 'k inbound_env =
  json_loads :: "string \<Rightarrow> exn + json"
  utf8_encode :: "string \<Rightarrow> exn + bytes"
  b64decode :: "json \<Rightarrow> exn + bytes"
  verify_signature :: "string \<Rightarrow> bytes \<Rightarrow> bytes \<Rightarrow> exn + unit"
  decrypt :: "'k \<Rightarrow> json \<Rightarrow> exn + string"

text \<open>
  \<open>x.get(k, d)\<close>: only a \<open>dict\<close> has the method; on any other value the attribute
  lookup raises \<open>AttributeError\<close> (its message is shortened to the attribute name).
\<close>

fun dict_get :: "json \<Rightarrow> string \<Rightarrow> json \<Rightarrow> exn + json" where
  "dict_get (JObj kvs) k d = Inr (case map_of kvs k of None \<Rightarrow> d | Some v \<Rightarrow> v)"
| "dict_get v k d = Inl (Exn AttributeError ''get'' None)"

text \<open>\<open>x.encode("utf-8")\<close>: only a \<open>str\<close> has the method.\<close>

fun str_encode :: "'k inbound_env \<Rightarrow> json \<Rightarrow> exn + bytes" where
  "str_encode env (JStr s) = utf8_encode env s"
| "str_encode env v = Inl (Exn AttributeError ''encode'' None)"

section \<open>\<open>validate_request\<close>\<close>

text \<open>The body of the outer \<open>try\<close> (lines 41 to 75).\<close>

definition validate_request_try ::
  "'k inbound_env \<Rightarrow> string \<Rightarrow> 'k \<Rightarrow> string \<Rightarrow> ('k, json \<times> json) run" where
  "validate_request_try env secret private_key body =
    (if body = [] then raise (Exn SignatureValidationError ''Missing body'' None)
     else
     seq (pure_step (json_loads env body)) (\<lambda>json_body.
     seq (pure_step (dict_get json_body ''signature'' (JStr ''''))) (\<lambda>encoded_signature.
     seq (pure_step (dict_get json_body ''message'' (JStr ''''))) (\<lambda>encoded_cipher.
     if \<not> truthy encoded_signature
     then raise (Exn SignatureValidationError ''Missing signature'' None)
     else if \<not> truthy encoded_cipher
     then raise (Exn SignatureValidationError ''Missing message'' None)
     else
     seq (pure_step (str_encode env encoded_cipher)) (\<lambda>encoded_cipher_bytes.
     seq (pure_step (b64decode env encoded_signature)) (\<lambda>decoded_sig_bytes.
     seq (try_except
            (crypto_call (VerifyCall secret encoded_cipher_bytes decoded_sig_bytes)
               (verify_signature env secret encoded_cipher_bytes decoded_sig_bytes))
            (\<lambda>exc. if isinstance exc InvalidSignature
                    then raise (Exn SignatureValidationError ''Invalid signature'' (Some exc))
                    else raise exc)) (\<lambda>_.
     seq (crypto_call (DecryptCall private_key encoded_cipher)
            (decrypt env private_key encoded_cipher)) (\<lambda>decrypted_body.
     seq (try_except
            (pure_step (json_loads env decrypted_body))
            (\<lambda>exc. if isinstance exc JSONDecodeError
                    then raise (Exn RequestValidationError ''Invalid request data'' (Some exc))
                    else raise exc)) (\<lambda>request_json.
     seq (pure_step (dict_get request_json ''challenge'' JNull)) (\<lambda>challenge.
     if \<not> truthy challenge
     then raise (Exn ServerChallengeValidationError ''Missing challenge'' None)
     else ret (request_json, challenge)))))))))))"

text \<open>
  The handlers of the outer \<open>try\<close> (lines 77 to 81) and the \<open>return\<close> (line 83). The log
  call has no effect on the result.
\<close>

definition validate_request_run ::
  "'k inbound_env \<Rightarrow> string \<Rightarrow> 'k \<Rightarrow> string \<Rightarrow> ('k, json \<times> json) run" where
  "validate_request_run env secret private_key body =
     try_except (validate_request_try env secret private_key body)
       (\<lambda>exc. if isinstance exc RequestValidationError
               then raise exc
               else raise (Exn RequestValidationError ''Cannot validate request'' (Some exc)))"

definition validate_request ::
  "'k inbound_env \<Rightarrow> string \<Rightarrow> 'k \<Rightarrow> string \<Rightarrow> exn + json \<times> json" where
  "validate_request env secret private_key body =
     snd (validate_request_run env secret private_key body)"

definition crypto_calls ::
  "'k inbound_env \<Rightarrow> string \<Rightarrow> 'k \<Rightarrow> string \<Rightarrow> 'k event list" where
  "crypto_calls env secret private_key body =
     fst (validate_request_run env secret private_key body)"

section \<open>Challenges\<close>

text \<open>
  \<open>os.urandom(n)\<close> returns \<open>n\<close> bytes of the system's entropy source; the source is a
  parameter, read from its start. \<open>bytes.hex()\<close> writes each byte as two lower-case
  hexadecimal digits, high nibble first.
\<close>

definition urandom :: "nat \<Rightarrow> (nat \<Rightarrow> 8 word) \<Rightarrow> bytes" where
  "urandom n src = map src [0..<n]"

definition hex_digits :: string where
  "hex_digits = ''0123456789abcdef''"

definition hex_byte :: "8 word \<Rightarrow> string" where
  "hex_byte b = [hex_digits ! (unat b div 16), hex_digits ! (unat b mod 16)]"

definition bytes_hex :: "bytes \<Rightarrow> string" where
  "bytes_hex bs = concat (map hex_byte bs)"

text \<open>Lines 95 and 138: \<open>challenge = os.urandom(64).hex()\<close>.\<close>

definition new_challenge :: "(nat \<Rightarrow> 8 word) \<Rightarrow> string" where
  "new_challenge src = bytes_hex (urandom 64 src)"

section \<open>Collaborators of the outbound calls\<close>

text \<open>
  A response of the \<open>requests\<close> library: its status code and what \<open>res.json()\<close> gives
  (a value, or an exception when the body does not decode).
\<close>

record response =
  status_code :: int
  res_json :: "exn + json"

record outbound_env =
  json_dumps :: "json \<Rightarrow> exn + string"
  generate_signature :: "string \<Rightarrow> string \<Rightarrow> exn + string"
  requests_post :: "string \<Rightarrow> (string \<times> string) list \<Rightarrow> string \<Rightarrow> exn + response"
  requests_get ::
    "string \<Rightarrow> (string \<times> string) list \<Rightarrow> (string \<times> string) list \<Rightarrow> exn + response"

text \<open>Sequencing where no call is recorded: an exception skips what follows.\<close>

definition and_then :: "exn + 'a \<Rightarrow> ('a \<Rightarrow> exn + 'b) \<Rightarrow> exn + 'b" where
  "and_then m f = (case m of Inl e \<Rightarrow> Inl e | Inr a \<Rightarrow> f a)"

section \<open>\<open>make_request\<close> and \<open>make_health_check\<close>\<close>

definition default_context :: json where
  "default_context =
     JObj [(''orgId'', JStr ''fake-org-id''),
           (''userId'', JStr ''fake-user-id''),
           (''userType'', JStr ''fake''),
           (''supportedDirectives'',
              JArr [JStr ''reply'', JStr ''speak'', JStr ''display-web-view'',
                    JStr ''sleep'', JStr ''listen''])]"

text \<open>
  Lines 97 to 115: \<open>context = context or {...}\<close>, then the dict comprehension that
  keeps the items whose value \<open>is not None\<close>.
\<close>

definition build_request ::
  "string \<Rightarrow> json \<Rightarrow> json \<Rightarrow> json \<Rightarrow> json \<Rightarrow> json \<Rightarrow> (string \<times> json) list" where
  "build_request challenge text context params frame history =
     (let context = (if truthy context then context else default_context)
      in filter (\<lambda>(k, v). v \<noteq> JNull)
           [(''challenge'', JStr challenge),
            (''text'', text),
            (''context'', context),
            (''params'', params),
            (''frame'', frame),
            (''history'', history)])"

text \<open>Lines 129 to 134 and 148 to 153: decode the response and compare the challenge.\<close>

definition check_response :: "response \<Rightarrow> string \<Rightarrow> exn + json" where
  "check_response res challenge =
     and_then (res_json res) (\<lambda>response_body.
     and_then (dict_get response_body ''challenge'' JNull) (\<lambda>echoed.
     if echoed \<noteq> JStr challenge
     then Inl (Exn ClientChallengeValidationError ''Response failed challenge'' None)
     else Inr response_body))"

definition make_request ::
  "outbound_env \<Rightarrow> (nat \<Rightarrow> 8 word) \<Rightarrow> string \<Rightarrow> json \<Rightarrow> string \<Rightarrow>
     json \<Rightarrow> json \<Rightarrow> json \<Rightarrow> json \<Rightarrow> exn + json" where
  "make_request env src secret text url context params frame history =
     (let challenge = new_challenge src;
          request = JObj (build_request challenge text context params frame history)
      in
      and_then (json_dumps env request) (\<lambda>encoded_request.
      and_then (generate_signature env secret encoded_request) (\<lambda>signature.
      and_then (requests_post env url
                  [(''X-Webex-Assistant-Signature'', signature),
                   (''Content-Type'', ''application/octet-stream''),
                   (''Accept'', ''application/json'')]
                  encoded_request) (\<lambda>res.
      if status_code res \<noteq> 200
      then Inl (Exn ResponseValidationError ''Request failed'' None)
      else check_response res challenge))))"

definition make_health_check ::
  "outbound_env \<Rightarrow> (nat \<Rightarrow> 8 word) \<Rightarrow> string \<Rightarrow> string \<Rightarrow> exn + json" where
  "make_health_check env src secret url =
     (let challenge = new_challenge src
      in
      and_then (generate_signature env secret challenge) (\<lambda>signature.
      and_then (requests_get env url
                  [(''X-Webex-Assistant-Signature'', signature),
                   (''Accept'', ''application/json'')]
                  [(''payload'', challenge)]) (\<lambda>res.
      if status_code res \<noteq> 200
      then Inl (Exn ResponseValidationError ''Health check failed'' None)
      else check_response res challenge)))"

section \<open>A concrete platform, for running the definitions\<close>

text \<open>
  A small instance of the collaborators: a table of the texts that decode as JSON, the
  base64 texts \<open>c2ln\<close> (the bytes of \<open>sig\<close>, the only signature that verifies, under the
  secret \<open>s3cr3t\<close>) and \<open>YmFk\<close>, any other signature text being rejected by the decoder,
  and a table of the messages that decrypt.
\<close>

definition bytes_of :: "string \<Rightarrow> bytes" where
  "bytes_of s = map of_char s"

definition envelope_text :: "string \<Rightarrow> string \<Rightarrow> string" where
  \<open>envelope_text sg msg = ''{"signature": "'' @ sg @ ''", "message": "'' @ msg @ ''"}''\<close>

definition envelope :: "string \<Rightarrow> string \<Rightarrow> json" where
  "envelope sg msg = JObj [(''signature'', JStr sg), (''message'', JStr msg)]"

definition lights_text :: string where
  \<open>lights_text = ''{"challenge": "abc123", "text": "turn on the lights"}''\<close>

definition lights :: json where
  "lights = JObj [(''challenge'', JStr ''abc123''), (''text'', JStr ''turn on the lights'')]"

definition demo_json :: "(string \<times> json) list" where
  \<open>demo_json =
     [(''{}'', JObj []),
      (''[]'', JArr []),
      (''{"signature": "c2ln"}'', JObj [(''signature'', JStr ''c2ln'')]),
      (envelope_text ''c2ln'' ''m-ok'', envelope ''c2ln'' ''m-ok''),
      (envelope_text ''c2ln'' ''m-nochal'', envelope ''c2ln'' ''m-nochal''),
      (envelope_text ''c2ln'' ''m-garbled'', envelope ''c2ln'' ''m-garbled''),
      (envelope_text ''c2ln'' ''m-corrupt'', envelope ''c2ln'' ''m-corrupt''),
      (envelope_text ''YmFk'' ''m-ok'', envelope ''YmFk'' ''m-ok''),
      (envelope_text ''abc'' ''m-ok'', envelope ''abc'' ''m-ok''),
      (lights_text, lights),
      (''{"text": "hi"}'', JObj [(''text'', JStr ''hi'')])]\<close>

definition demo_base64 :: "(string \<times> bytes) list" where
  "demo_base64 = [(''c2ln'', bytes_of ''sig''), (''YmFk'', bytes_of ''bad'')]"

definition demo_cipher :: "(string \<times> string) list" where
  \<open>demo_cipher =
     [(''m-ok'', lights_text),
      (''m-nochal'', ''{"text": "hi"}''),
      (''m-garbled'', ''not json'')]\<close>

definition demo_env :: "string inbound_env" where
  "demo_env =
     \<lparr>json_loads = (\<lambda>s. case map_of demo_json s of
                          Some v \<Rightarrow> Inr v
                        | None \<Rightarrow> Inl (Exn JSONDecodeError ''Expecting value'' None)),
      utf8_encode = (\<lambda>s. Inr (bytes_of s)),
      b64decode = (\<lambda>v. case v of
                          JStr s \<Rightarrow> (case map_of demo_base64 s of
                                       Some b \<Rightarrow> Inr b
                                     | None \<Rightarrow> Inl (Exn binascii_Error ''Incorrect padding'' None))
                        | _ \<Rightarrow> Inl (Exn TypeError ''argument should be a bytes-like object'' None)),
      verify_signature = (\<lambda>secret msg sg.
                            if secret = ''s3cr3t'' \<and> sg = bytes_of ''sig''
                            then Inr ()
                            else Inl (Exn InvalidSignature ''Signature did not match digest.'' None)),
      decrypt = (\<lambda>key c. case c of
                            JStr s \<Rightarrow> (case map_of demo_cipher s of
                                         Some p \<Rightarrow> Inr p
                                       | None \<Rightarrow> Inl (Exn ValueError ''Decryption failed'' None))
                          | _ \<Rightarrow> Inl (Exn TypeError ''not a string'' None))\<rparr>"

text \<open>
  A platform that answers every call with status 200 and the given decoded body, and an
  entropy source.
\<close>

definition demo_platform :: "exn + json \<Rightarrow> outbound_env" where
  "demo_platform answer =
     \<lparr>json_dumps = (\<lambda>j. Inr ''<request>''),
      generate_signature = (\<lambda>secret payload. Inr ''c2ln''),
      requests_post = (\<lambda>url headers data. Inr \<lparr>status_code = 200, res_json = answer\<rparr>),
      requests_get = (\<lambda>url headers params. Inr \<lparr>status_code = 200, res_json = answer\<rparr>)\<rparr>"

definition demo_src :: "nat \<Rightarrow> 8 word" where
  "demo_src i = of_nat (37 * i + 11)"

section \<open>Notions used to state the properties\<close>

text \<open>
  A \<open>dict\<close> lacks a non-empty value under a key when the key is absent or its value is
  falsy (the test \<open>if not x\<close> of the source).
\<close>

definition lacks :: "(string \<times> json) list \<Rightarrow> string \<Rightarrow> bool" where
  "lacks kvs k = (case map_of kvs k of None \<Rightarrow> True | Some v \<Rightarrow> \<not> truthy v)"

text \<open>The class of the exception a call raises, if it raises.\<close>

definition raised_class :: "exn + 'a \<Rightarrow> exn_class option" where
  "raised_class r = (case r of Inl e \<Rightarrow> Some (exn_cls e) | Inr a \<Rightarrow> None)"

section \<open>Properties\<close>

subsection \<open>The outcome of a run, statement by statement\<close>

lemmas run_defs = ret_def raise_def pure_step_def crypto_call_def seq_def try_except_def

lemma validate_request_try_unfold:
  "validate_request_try env secret private_key body =
    (if body = [] then ([], Inl (Exn SignatureValidationError ''Missing body'' None))
     else case json_loads env body of Inl e \<Rightarrow> ([], Inl e) | Inr j \<Rightarrow>
     (case dict_get j ''signature'' (JStr '''') of Inl e \<Rightarrow> ([], Inl e) | Inr sg \<Rightarrow>
     (case dict_get j ''message'' (JStr '''') of Inl e \<Rightarrow> ([], Inl e) | Inr c \<Rightarrow>
      if \<not> truthy sg then ([], Inl (Exn SignatureValidationError ''Missing signature'' None))
      else if \<not> truthy c then ([], Inl (Exn SignatureValidationError ''Missing message'' None))
      else
     (case str_encode env c of Inl e \<Rightarrow> ([], Inl e) | Inr m \<Rightarrow>
     (case b64decode env sg of Inl e \<Rightarrow> ([], Inl e) | Inr sb \<Rightarrow>
     (case verify_signature env secret m sb of
        Inl e \<Rightarrow> ([VerifyCall secret m sb],
                  Inl (if isinstance e InvalidSignature
                       then Exn SignatureValidationError ''Invalid signature'' (Some e) else e))
      | Inr u \<Rightarrow>
     (case decrypt env private_key c of
        Inl e \<Rightarrow> ([VerifyCall secret m sb, DecryptCall private_key c], Inl e)
      | Inr p \<Rightarrow>
     (case json_loads env p of
        Inl e \<Rightarrow> ([VerifyCall secret m sb, DecryptCall private_key c],
                  Inl (if isinstance e JSONDecodeError
                       then Exn RequestValidationError ''Invalid request data'' (Some e) else e))
      | Inr rj \<Rightarrow>
     (case dict_get rj ''challenge'' JNull of
        Inl e \<Rightarrow> ([VerifyCall secret m sb, DecryptCall private_key c], Inl e)
      | Inr ch \<Rightarrow>
        if \<not> truthy ch
        then ([VerifyCall secret m sb, DecryptCall private_key c],
              Inl (Exn ServerChallengeValidationError ''Missing challenge'' None))
        else ([VerifyCall secret m sb, DecryptCall private_key c], Inr (rj, ch)))))))))))"
  unfolding validate_request_try_def
  by (simp add: run_defs split: sum.split)

lemma validate_request_run_unfold:
  "validate_request_run env secret private_key body =
     (case validate_request_try env secret private_key body of
        (l, Inl e) \<Rightarrow>
          (l, Inl (if isinstance e RequestValidationError then e
                   else Exn RequestValidationError ''Cannot validate request'' (Some e)))
      | (l, Inr a) \<Rightarrow> (l, Inr a))"
  by (simp add: validate_request_run_def try_except_def raise_def split: prod.split sum.split)

subsection \<open>Runs on the concrete platform\<close>

lemmas demo_defs = demo_env_def demo_json_def demo_base64_def demo_cipher_def
  envelope_text_def envelope_def lights_def lights_text_def

lemma demo_envelope:
  "envelope_text sg msg \<noteq> []"
  "json_loads demo_env (envelope_text ''c2ln'' ''m-ok'') = Inr (envelope ''c2ln'' ''m-ok'')"
  "json_loads demo_env (envelope_text ''c2ln'' ''m-nochal'') = Inr (envelope ''c2ln'' ''m-nochal'')"
  "json_loads demo_env (envelope_text ''c2ln'' ''m-garbled'') = Inr (envelope ''c2ln'' ''m-garbled'')"
  "json_loads demo_env (envelope_text ''c2ln'' ''m-corrupt'') = Inr (envelope ''c2ln'' ''m-corrupt'')"
  "json_loads demo_env (envelope_text ''YmFk'' ''m-ok'') = Inr (envelope ''YmFk'' ''m-ok'')"
  "json_loads demo_env (envelope_text ''abc'' ''m-ok'') = Inr (envelope ''abc'' ''m-ok'')"
  by (simp_all add: demo_env_def demo_json_def envelope_text_def lights_text_def)

lemma demo_collaborators:
  "utf8_encode demo_env s = Inr (bytes_of s)"
  "b64decode demo_env (JStr ''c2ln'') = Inr (bytes_of ''sig'')"
  "b64decode demo_env (JStr ''YmFk'') = Inr (bytes_of ''bad'')"
  "b64decode demo_env (JStr ''abc'') = Inl (Exn binascii_Error ''Incorrect padding'' None)"
  "verify_signature demo_env ''s3cr3t'' m (bytes_of ''sig'') = Inr ()"
  "verify_signature demo_env ''s3cr3t'' m (bytes_of ''bad'')
     = Inl (Exn InvalidSignature ''Signature did not match digest.'' None)"
  "decrypt demo_env k (JStr ''m-ok'') = Inr lights_text"
  "decrypt demo_env k (JStr ''m-nochal'') = Inr ''{\"text\": \"hi\"}''"
  "decrypt demo_env k (JStr ''m-garbled'') = Inr ''not json''"
  "decrypt demo_env k (JStr ''m-corrupt'') = Inl (Exn ValueError ''Decryption failed'' None)"
  "json_loads demo_env ''not json'' = Inl (Exn JSONDecodeError ''Expecting value'' None)"
  "json_loads demo_env ''{\"text\": \"hi\"}'' = Inr (JObj [(''text'', JStr ''hi'')])"
  "json_loads demo_env lights_text = Inr lights"
  by (simp_all add: demo_env_def demo_json_def demo_base64_def demo_cipher_def
        envelope_text_def lights_text_def bytes_of_def)

lemma demo_run_ok:
  "validate_request_run demo_env ''s3cr3t'' ''key'' (envelope_text ''c2ln'' ''m-ok'') =
     ([VerifyCall ''s3cr3t'' (bytes_of ''m-ok'') (bytes_of ''sig''),
       DecryptCall ''key'' (JStr ''m-ok'')],
      Inr (lights, JStr ''abc123''))"
  unfolding validate_request_run_unfold validate_request_try_unfold
  by (simp add: demo_defs)

lemma demo_run_badsig:
  "validate_request_run demo_env ''s3cr3t'' ''key'' (envelope_text ''YmFk'' ''m-ok'') =
     ([VerifyCall ''s3cr3t'' (bytes_of ''m-ok'') (bytes_of ''bad'')],
      Inl (Exn SignatureValidationError ''Invalid signature''
            (Some (Exn InvalidSignature ''Signature did not match digest.'' None))))"
  unfolding validate_request_run_unfold validate_request_try_unfold
  by (simp add: demo_defs isinstance_def bytes_of_def)

lemma demo_run_badb64:
  "validate_request_run demo_env ''s3cr3t'' ''key'' (envelope_text ''abc'' ''m-ok'') =
     ([], Inl (Exn RequestValidationError ''Cannot validate request''
                (Some (Exn binascii_Error ''Incorrect padding'' None))))"
  unfolding validate_request_run_unfold validate_request_try_unfold
  by (simp add: demo_defs isinstance_def binascii_Error_def ValueError_def)

lemma demo_run_nochal:
  "validate_request_run demo_env ''s3cr3t'' ''key'' (envelope_text ''c2ln'' ''m-nochal'') =
     ([VerifyCall ''s3cr3t'' (bytes_of ''m-nochal'') (bytes_of ''sig''),
       DecryptCall ''key'' (JStr ''m-nochal'')],
      Inl (Exn ServerChallengeValidationError ''Missing challenge'' None))"
  unfolding validate_request_run_unfold validate_request_try_unfold
  by (simp add: demo_defs isinstance_def)

lemma demo_run_garbled:
  "validate_request_run demo_env ''s3cr3t'' ''key'' (envelope_text ''c2ln'' ''m-garbled'') =
     ([VerifyCall ''s3cr3t'' (bytes_of ''m-garbled'') (bytes_of ''sig''),
       DecryptCall ''key'' (JStr ''m-garbled'')],
      Inl (Exn RequestValidationError ''Invalid request data''
            (Some (Exn JSONDecodeError ''Expecting value'' None))))"
  unfolding validate_request_run_unfold validate_request_try_unfold
  by (simp add: demo_defs isinstance_def)

lemma demo_run_corrupt:
  "validate_request_run demo_env ''s3cr3t'' ''key'' (envelope_text ''c2ln'' ''m-corrupt'') =
     ([VerifyCall ''s3cr3t'' (bytes_of ''m-corrupt'') (bytes_of ''sig''),
       DecryptCall ''key'' (JStr ''m-corrupt'')],
      Inl (Exn RequestValidationError ''Cannot validate request''
            (Some (Exn ValueError ''Decryption failed'' None))))"
  unfolding validate_request_run_unfold validate_request_try_unfold
  by (simp add: demo_defs isinstance_def ValueError_def)

lemma demo_run_array:
  "validate_request_run demo_env ''s3cr3t'' ''key'' ''[]'' =
     ([], Inl (Exn RequestValidationError ''Cannot validate request''
                (Some (Exn AttributeError ''get'' None))))"
  unfolding validate_request_run_unfold validate_request_try_unfold
  by (simp add: demo_defs isinstance_def)

lemma demo_platform_simps:
  "json_dumps (demo_platform answer) j = Inr ''<request>''"
  "generate_signature (demo_platform answer) secret payload = Inr ''c2ln''"
  "requests_post (demo_platform answer) url headers data
     = Inr \<lparr>status_code = 200, res_json = answer\<rparr>"
  "requests_get (demo_platform answer) url headers params
     = Inr \<lparr>status_code = 200, res_json = answer\<rparr>"
  by (simp_all add: demo_platform_def)

subsection \<open>Hexadecimal writing of bytes\<close>

lemma hex_digit_in: "n < 16 \<Longrightarrow> hex_digits ! n \<in> set hex_digits"
  by (rule nth_mem) (simp add: hex_digits_def)

lemma hex_byte_props: "length (hex_byte b) = 2 \<and> set (hex_byte b) \<subseteq> set hex_digits"
proof -
  have "unat b < 2 ^ LENGTH(8)" by (rule unsigned_less)
  then have "unat b < 256" by simp
  then have "unat b div 16 < 16" by simp
  moreover have "unat b mod 16 < 16" by simp
  ultimately show ?thesis
    by (simp add: hex_byte_def hex_digit_in)
qed

lemma bytes_hex_props:
  "length (bytes_hex bs) = 2 * length bs \<and> set (bytes_hex bs) \<subseteq> set hex_digits"
proof (induction bs)
  case Nil
  then show ?case by (simp add: bytes_hex_def)
next
  case (Cons b bs)
  with hex_byte_props [of b] show ?case
    by (simp add: bytes_hex_def)
qed

subsection \<open>Signature verification comes before decryption\<close>

text \<open>
  C1. Whatever the secret, the private key and the body: if \<open>crypto.decrypt\<close> is called
  during \<open>validate_request\<close>, then the body decoded to an envelope, the message fed to
  \<open>crypto.decrypt\<close> is the envelope's \<open>message\<close>, the envelope's \<open>signature\<close> was
  decoded by \<open>base64.b64decode\<close>, and the calls to \<open>crypto\<close> are exactly one call of
  \<open>crypto.verify_signature\<close>, under the given secret, on the UTF-8 bytes of the still
  encrypted message and on that decoded signature, which returned without raising,
  followed by the call of \<open>crypto.decrypt\<close> with the given key. An envelope whose decoded
  signature does not verify over the bytes of its message is never fed to
  \<open>crypto.decrypt\<close>; and whenever a call of \<open>crypto.verify_signature\<close> did not return
  normally, \<open>crypto.decrypt\<close> is not called.
\<close>

theorem verify_before_decrypt:
  "(DecryptCall k c \<in> set (crypto_calls env secret private_key body) \<longrightarrow>
      k = private_key \<and>
      (\<exists>j sgv m sg.
           json_loads env body = Inr j
         \<and> dict_get j ''signature'' (JStr '''') = Inr sgv
         \<and> dict_get j ''message'' (JStr '''') = Inr c
         \<and> str_encode env c = Inr m
         \<and> b64decode env sgv = Inr sg
         \<and> verify_signature env secret m sg = Inr ()
         \<and> crypto_calls env secret private_key body
             = [VerifyCall secret m sg, DecryptCall private_key c]))
   \<and> (json_loads env body = Inr j'
        \<and> dict_get j' ''signature'' (JStr '''') = Inr sgv'
        \<and> dict_get j' ''message'' (JStr '''') = Inr c0
        \<and> str_encode env c0 = Inr m0
        \<and> b64decode env sgv' = Inr sg0
        \<and> verify_signature env secret m0 sg0 \<noteq> Inr ()
      \<longrightarrow> DecryptCall k' c' \<notin> set (crypto_calls env secret private_key body))
   \<and> (VerifyCall s m' sg' \<in> set (crypto_calls env secret private_key body)
        \<and> verify_signature env s m' sg' \<noteq> Inr ()
      \<longrightarrow> DecryptCall k' c' \<notin> set (crypto_calls env secret private_key body))"
  unfolding crypto_calls_def validate_request_run_unfold validate_request_try_unfold
  by (auto split: sum.split)

theorem verify_before_decrypt_witness:
  "DecryptCall ''key'' (JStr ''m-ok'')
     \<in> set (crypto_calls demo_env ''s3cr3t'' ''key'' (envelope_text ''c2ln'' ''m-ok''))
   \<and> (\<exists>j sgv m sg.
           json_loads demo_env (envelope_text ''c2ln'' ''m-ok'') = Inr j
         \<and> dict_get j ''signature'' (JStr '''') = Inr sgv
         \<and> dict_get j ''message'' (JStr '''') = Inr (JStr ''m-ok'')
         \<and> str_encode demo_env (JStr ''m-ok'') = Inr m
         \<and> b64decode demo_env sgv = Inr sg
         \<and> verify_signature demo_env ''s3cr3t'' m sg = Inr ()
         \<and> crypto_calls demo_env ''s3cr3t'' ''key'' (envelope_text ''c2ln'' ''m-ok'')
             = [VerifyCall ''s3cr3t'' m sg, DecryptCall ''key'' (JStr ''m-ok'')])
   \<and> json_loads demo_env (envelope_text ''YmFk'' ''m-ok'') = Inr (envelope ''YmFk'' ''m-ok'')
   \<and> b64decode demo_env (JStr ''YmFk'') = Inr (bytes_of ''bad'')
   \<and> verify_signature demo_env ''s3cr3t'' (bytes_of ''m-ok'') (bytes_of ''bad'') \<noteq> Inr ()
   \<and> VerifyCall ''s3cr3t'' (bytes_of ''m-ok'') (bytes_of ''bad'')
     \<in> set (crypto_calls demo_env ''s3cr3t'' ''key'' (envelope_text ''YmFk'' ''m-ok''))
   \<and> DecryptCall ''key'' (JStr ''m-ok'')
     \<notin> set (crypto_calls demo_env ''s3cr3t'' ''key'' (envelope_text ''YmFk'' ''m-ok''))"
proof -
  have called: "DecryptCall ''key'' (JStr ''m-ok'')
     \<in> set (crypto_calls demo_env ''s3cr3t'' ''key'' (envelope_text ''c2ln'' ''m-ok''))"
    by (simp add: crypto_calls_def demo_run_ok)
  have tied: "\<exists>j sgv m sg.
           json_loads demo_env (envelope_text ''c2ln'' ''m-ok'') = Inr j
         \<and> dict_get j ''signature'' (JStr '''') = Inr sgv
         \<and> dict_get j ''message'' (JStr '''') = Inr (JStr ''m-ok'')
         \<and> str_encode demo_env (JStr ''m-ok'') = Inr m
         \<and> b64decode demo_env sgv = Inr sg
         \<and> verify_signature demo_env ''s3cr3t'' m sg = Inr ()
         \<and> crypto_calls demo_env ''s3cr3t'' ''key'' (envelope_text ''c2ln'' ''m-ok'')
             = [VerifyCall ''s3cr3t'' m sg, DecryptCall ''key'' (JStr ''m-ok'')]"
    using verify_before_decrypt [where k = "''key''" and c = "JStr ''m-ok''"
        and env = demo_env and secret = "''s3cr3t''" and private_key = "''key''"
        and body = "envelope_text ''c2ln'' ''m-ok''"] called
    by blast
  have loaded:
    "json_loads demo_env (envelope_text ''YmFk'' ''m-ok'') = Inr (envelope ''YmFk'' ''m-ok'')"
    by (simp add: demo_envelope)
  have fields:
    "dict_get (envelope ''YmFk'' ''m-ok'') ''signature'' (JStr '''') = Inr (JStr ''YmFk'')"
    "dict_get (envelope ''YmFk'' ''m-ok'') ''message'' (JStr '''') = Inr (JStr ''m-ok'')"
    by (simp_all add: envelope_def)
  have encoded: "str_encode demo_env (JStr ''m-ok'') = Inr (bytes_of ''m-ok'')"
    by (simp add: demo_collaborators)
  have decoded: "b64decode demo_env (JStr ''YmFk'') = Inr (bytes_of ''bad'')"
    by (simp add: demo_collaborators)
  have rejected:
    "verify_signature demo_env ''s3cr3t'' (bytes_of ''m-ok'') (bytes_of ''bad'') \<noteq> Inr ()"
    by (simp add: demo_collaborators)
  have verified: "VerifyCall ''s3cr3t'' (bytes_of ''m-ok'') (bytes_of ''bad'')
     \<in> set (crypto_calls demo_env ''s3cr3t'' ''key'' (envelope_text ''YmFk'' ''m-ok''))"
    by (simp add: crypto_calls_def demo_run_badsig)
  have unfed: "DecryptCall ''key'' (JStr ''m-ok'')
     \<notin> set (crypto_calls demo_env ''s3cr3t'' ''key'' (envelope_text ''YmFk'' ''m-ok''))"
    using verify_before_decrypt [where env = demo_env and secret = "''s3cr3t''"
        and private_key = "''key''" and body = "envelope_text ''YmFk'' ''m-ok''"
        and j' = "envelope ''YmFk'' ''m-ok''" and sgv' = "JStr ''YmFk''"
        and ?c0.0 = "JStr ''m-ok''" and ?m0.0 = "bytes_of ''m-ok''"
        and ?sg0.0 = "bytes_of ''bad''" and k' = "''key''" and c' = "JStr ''m-ok''"]
      loaded fields encoded decoded rejected
    by blast
  from called tied loaded decoded rejected verified unfed show ?thesis
    by (intro conjI)
qed

subsection \<open>Missing body, signature or message\<close>

text \<open>
  C2, as the code has it. An empty body fails with SignatureValidationError
  (``Missing body''). A non-empty body that decodes to a JSON object fails with
  SignatureValidationError when the object lacks a non-empty \<open>signature\<close>
  (``Missing signature''), and otherwise when it lacks a non-empty \<open>message\<close>
  (``Missing message''); the object \<open>{}\<close> is the first of these cases. A body that decodes
  to a JSON value other than an object is not covered: see the counterexample below.
\<close>

theorem missing_field_signature_failure:
  "(body = [] \<longrightarrow>
      validate_request env secret private_key body
        = Inl (Exn SignatureValidationError ''Missing body'' None))
   \<and> (body \<noteq> [] \<and> json_loads env body = Inr (JObj kvs) \<and> lacks kvs ''signature'' \<longrightarrow>
      validate_request env secret private_key body
        = Inl (Exn SignatureValidationError ''Missing signature'' None))
   \<and> (body \<noteq> [] \<and> json_loads env body = Inr (JObj kvs) \<and> \<not> lacks kvs ''signature''
        \<and> lacks kvs ''message'' \<longrightarrow>
      validate_request env secret private_key body
        = Inl (Exn SignatureValidationError ''Missing message'' None))"
  unfolding validate_request_def validate_request_run_unfold validate_request_try_unfold
  by (simp add: lacks_def isinstance_def split: option.splits)

theorem missing_field_signature_failure_witness:
  \<open>validate_request demo_env ''s3cr3t'' ''key'' []
     = Inl (Exn SignatureValidationError ''Missing body'' None)
   \<and> ''{}'' \<noteq> [] \<and> json_loads demo_env ''{}'' = Inr (JObj []) \<and> lacks [] ''signature''
   \<and> validate_request demo_env ''s3cr3t'' ''key'' ''{}''
     = Inl (Exn SignatureValidationError ''Missing signature'' None)
   \<and> json_loads demo_env ''{"signature": "c2ln"}''
       = Inr (JObj [(''signature'', JStr ''c2ln'')])
   \<and> \<not> lacks [(''signature'', JStr ''c2ln'')] ''signature''
   \<and> lacks [(''signature'', JStr ''c2ln'')] ''message''
   \<and> validate_request demo_env ''s3cr3t'' ''key'' ''{"signature": "c2ln"}''
     = Inl (Exn SignatureValidationError ''Missing message'' None)\<close>
proof -
  have l1: \<open>json_loads demo_env ''{}'' = Inr (JObj [])\<close>
    by (simp add: demo_env_def demo_json_def)
  have l2: \<open>json_loads demo_env ''{"signature": "c2ln"}''
       = Inr (JObj [(''signature'', JStr ''c2ln'')])\<close>
    by (simp add: demo_env_def demo_json_def)
  have k1: "lacks [] ''signature''"
    by (simp add: lacks_def)
  have k2: "\<not> lacks [(''signature'', JStr ''c2ln'')] ''signature''"
    "lacks [(''signature'', JStr ''c2ln'')] ''message''"
    by (simp_all add: lacks_def)
  show ?thesis
    using missing_field_signature_failure [of "[]" demo_env "''s3cr3t''" "''key''" "[]"]
      missing_field_signature_failure [of "''{}''" demo_env "''s3cr3t''" "''key''" "[]"]
      missing_field_signature_failure [of \<open>''{"signature": "c2ln"}''\<close> demo_env "''s3cr3t''" "''key''"
            "[(''signature'', JStr ''c2ln'')]"]
      l1 l2 k1 k2
    by simp
qed

theorem non_object_body_counterexample:
  "json_loads demo_env ''[]'' = Inr (JArr [])
   \<and> validate_request demo_env ''s3cr3t'' ''key'' ''[]''
       = Inl (Exn RequestValidationError ''Cannot validate request''
               (Some (Exn AttributeError ''get'' None)))
   \<and> \<not> isinstance (Exn RequestValidationError ''Cannot validate request''
                      (Some (Exn AttributeError ''get'' None)))
          SignatureValidationError"
  by (simp add: validate_request_def demo_run_array isinstance_def)
     (simp add: demo_env_def demo_json_def)

subsection \<open>Rejected and malformed signatures\<close>

text \<open>
  C3, as the code has it. For every secret and every non-empty body that decodes to a JSON
  object: an envelope that lacks a non-empty \<open>signature\<close> fails with
  SignatureValidationError (``Missing signature''). For an envelope with a non-empty
  \<open>signature\<close> and a non-empty \<open>message\<close> that encodes to bytes: when the signature
  decodes and the verifier rejects it by raising InvalidSignature, validation fails with
  SignatureValidationError (``Invalid signature'') caused by it; when the verifier raises
  any other error, or when \<open>base64.b64decode\<close> rejects the signature text, that error
  reaches the caller unchanged if it is a RequestValidationError and is otherwise
  replaced by the general RequestValidationError (``Cannot validate request'') caused by
  it. In every case, whatever the body, what \<open>validate_request\<close> raises is an instance
  of RequestValidationError.
\<close>

theorem signature_rejection_kinds:
  "(body \<noteq> [] \<and> json_loads env body = Inr (JObj kvs) \<and> lacks kvs ''signature'' \<longrightarrow>
      validate_request env secret private_key body
        = Inl (Exn SignatureValidationError ''Missing signature'' None))
   \<and> (body \<noteq> [] \<and> json_loads env body = Inr (JObj kvs)
        \<and> map_of kvs ''signature'' = Some sg \<and> truthy sg
        \<and> map_of kvs ''message'' = Some c \<and> truthy c
        \<and> str_encode env c = Inr m
        \<and> b64decode env sg = Inr sb
        \<and> verify_signature env secret m sb = Inl e
        \<and> isinstance e InvalidSignature \<longrightarrow>
      validate_request env secret private_key body
        = Inl (Exn SignatureValidationError ''Invalid signature'' (Some e)))
   \<and> (body \<noteq> [] \<and> json_loads env body = Inr (JObj kvs)
        \<and> map_of kvs ''signature'' = Some sg \<and> truthy sg
        \<and> map_of kvs ''message'' = Some c \<and> truthy c
        \<and> str_encode env c = Inr m
        \<and> b64decode env sg = Inr sb
        \<and> verify_signature env secret m sb = Inl e
        \<and> \<not> isinstance e InvalidSignature \<longrightarrow>
      validate_request env secret private_key body
        = Inl (if isinstance e RequestValidationError then e
               else Exn RequestValidationError ''Cannot validate request'' (Some e)))
   \<and> (body \<noteq> [] \<and> json_loads env body = Inr (JObj kvs)
        \<and> map_of kvs ''signature'' = Some sg \<and> truthy sg
        \<and> map_of kvs ''message'' = Some c \<and> truthy c
        \<and> str_encode env c = Inr m
        \<and> b64decode env sg = Inl e' \<longrightarrow>
      validate_request env secret private_key body
        = Inl (if isinstance e' RequestValidationError then e'
               else Exn RequestValidationError ''Cannot validate request'' (Some e')))
   \<and> (validate_request env secret private_key body = Inl x \<longrightarrow>
      isinstance x RequestValidationError)"
proof -
  have missing:
    "body \<noteq> [] \<and> json_loads env body = Inr (JObj kvs) \<and> lacks kvs ''signature'' \<longrightarrow>
      validate_request env secret private_key body
        = Inl (Exn SignatureValidationError ''Missing signature'' None)"
    unfolding validate_request_def validate_request_run_unfold validate_request_try_unfold
    by (simp add: lacks_def isinstance_def split: option.splits)
  have rejected: "body \<noteq> [] \<and> json_loads env body = Inr (JObj kvs)
        \<and> map_of kvs ''signature'' = Some sg \<and> truthy sg
        \<and> map_of kvs ''message'' = Some c \<and> truthy c
        \<and> str_encode env c = Inr m
        \<and> b64decode env sg = Inr sb
        \<and> verify_signature env secret m sb = Inl e
        \<and> isinstance e InvalidSignature \<longrightarrow>
      validate_request env secret private_key body
        = Inl (Exn SignatureValidationError ''Invalid signature'' (Some e))"
    unfolding validate_request_def validate_request_run_unfold validate_request_try_unfold
    by (simp add: isinstance_def)
  have other: "body \<noteq> [] \<and> json_loads env body = Inr (JObj kvs)
        \<and> map_of kvs ''signature'' = Some sg \<and> truthy sg
        \<and> map_of kvs ''message'' = Some c \<and> truthy c
        \<and> str_encode env c = Inr m
        \<and> b64decode env sg = Inr sb
        \<and> verify_signature env secret m sb = Inl e
        \<and> \<not> isinstance e InvalidSignature \<longrightarrow>
      validate_request env secret private_key body
        = Inl (if isinstance e RequestValidationError then e
               else Exn RequestValidationError ''Cannot validate request'' (Some e))"
    unfolding validate_request_def validate_request_run_unfold validate_request_try_unfold
    by simp
  have malformed: "body \<noteq> [] \<and> json_loads env body = Inr (JObj kvs)
        \<and> map_of kvs ''signature'' = Some sg \<and> truthy sg
        \<and> map_of kvs ''message'' = Some c \<and> truthy c
        \<and> str_encode env c = Inr m
        \<and> b64decode env sg = Inl e' \<longrightarrow>
      validate_request env secret private_key body
        = Inl (if isinstance e' RequestValidationError then e'
               else Exn RequestValidationError ''Cannot validate request'' (Some e'))"
    unfolding validate_request_def validate_request_run_unfold validate_request_try_unfold
    by simp
  have kind: "validate_request env secret private_key body = Inl x \<longrightarrow>
      isinstance x RequestValidationError"
    unfolding validate_request_def validate_request_run_unfold
    by (cases "validate_request_try env secret private_key body")
       (auto simp: isinstance_def split: sum.splits)
  from missing rejected other malformed kind show ?thesis
    by (intro conjI)
qed

theorem signature_rejection_kinds_witness:
  "json_loads demo_env ''{}'' = Inr (JObj []) \<and> lacks [] ''signature''
   \<and> validate_request demo_env ''s3cr3t'' ''key'' ''{}''
       = Inl (Exn SignatureValidationError ''Missing signature'' None)
   \<and> b64decode demo_env (JStr ''YmFk'') = Inr (bytes_of ''bad'')
   \<and> verify_signature demo_env ''s3cr3t'' (bytes_of ''m-ok'') (bytes_of ''bad'')
       = Inl (Exn InvalidSignature ''Signature did not match digest.'' None)
   \<and> validate_request demo_env ''s3cr3t'' ''key'' (envelope_text ''YmFk'' ''m-ok'')
       = Inl (Exn SignatureValidationError ''Invalid signature''
               (Some (Exn InvalidSignature ''Signature did not match digest.'' None)))
   \<and> b64decode demo_env (JStr ''abc'') = Inl (Exn binascii_Error ''Incorrect padding'' None)
   \<and> validate_request demo_env ''s3cr3t'' ''key'' (envelope_text ''abc'' ''m-ok'')
       = Inl (Exn RequestValidationError ''Cannot validate request''
               (Some (Exn binascii_Error ''Incorrect padding'' None)))
   \<and> isinstance (Exn RequestValidationError ''Cannot validate request''
                   (Some (Exn binascii_Error ''Incorrect padding'' None)))
        RequestValidationError"
proof -
  have inst: "isinstance (Exn InvalidSignature ''Signature did not match digest.'' None)
                InvalidSignature"
    "\<not> isinstance (Exn binascii_Error ''Incorrect padding'' None) RequestValidationError"
    by (simp_all add: isinstance_def binascii_Error_def ValueError_def)
  have empty_object: "json_loads demo_env ''{}'' = Inr (JObj [])" "lacks [] ''signature''"
    by (simp_all add: demo_env_def demo_json_def lacks_def)
  have missing: "validate_request demo_env ''s3cr3t'' ''key'' ''{}''
       = Inl (Exn SignatureValidationError ''Missing signature'' None)"
    using signature_rejection_kinds [where body = "''{}''" and env = demo_env
        and kvs = "[]" and secret = "''s3cr3t''" and private_key = "''key''"]
      empty_object
    by simp
  have bad: "validate_request demo_env ''s3cr3t'' ''key'' (envelope_text ''YmFk'' ''m-ok'')
       = Inl (Exn SignatureValidationError ''Invalid signature''
               (Some (Exn InvalidSignature ''Signature did not match digest.'' None)))"
    using signature_rejection_kinds [where body = "envelope_text ''YmFk'' ''m-ok''"
        and env = demo_env
        and kvs = "[(''signature'', JStr ''YmFk''), (''message'', JStr ''m-ok'')]"
        and sg = "JStr ''YmFk''" and c = "JStr ''m-ok''" and m = "bytes_of ''m-ok''"
        and sb = "bytes_of ''bad''" and secret = "''s3cr3t''" and private_key = "''key''"
        and e = "Exn InvalidSignature ''Signature did not match digest.'' None"]
      inst
    by (simp add: demo_envelope demo_collaborators envelope_def)
  have malformed: "validate_request demo_env ''s3cr3t'' ''key'' (envelope_text ''abc'' ''m-ok'')
       = Inl (Exn RequestValidationError ''Cannot validate request''
               (Some (Exn binascii_Error ''Incorrect padding'' None)))"
    using signature_rejection_kinds [where body = "envelope_text ''abc'' ''m-ok''"
        and env = demo_env
        and kvs = "[(''signature'', JStr ''abc''), (''message'', JStr ''m-ok'')]"
        and sg = "JStr ''abc''" and c = "JStr ''m-ok''" and m = "bytes_of ''m-ok''"
        and secret = "''s3cr3t''" and private_key = "''key''"
        and e' = "Exn binascii_Error ''Incorrect padding'' None"]
      inst
    by (simp add: demo_envelope demo_collaborators envelope_def)
  have kind: "isinstance (Exn RequestValidationError ''Cannot validate request''
                   (Some (Exn binascii_Error ''Incorrect padding'' None)))
        RequestValidationError"
    using signature_rejection_kinds [where body = "envelope_text ''abc'' ''m-ok''"
        and env = demo_env and secret = "''s3cr3t''" and private_key = "''key''"
        and x = "Exn RequestValidationError ''Cannot validate request''
                   (Some (Exn binascii_Error ''Incorrect padding'' None))"]
      malformed
    by simp
  from missing bad malformed kind empty_object show ?thesis
    by (simp add: demo_collaborators)
qed

theorem malformed_signature_counterexample:
  "b64decode demo_env (JStr ''abc'') = Inl (Exn binascii_Error ''Incorrect padding'' None)
   \<and> validate_request demo_env ''s3cr3t'' ''key'' (envelope_text ''abc'' ''m-ok'')
       = Inl (Exn RequestValidationError ''Cannot validate request''
               (Some (Exn binascii_Error ''Incorrect padding'' None)))
   \<and> \<not> isinstance (Exn RequestValidationError ''Cannot validate request''
                      (Some (Exn binascii_Error ''Incorrect padding'' None)))
          SignatureValidationError"
  by (simp add: validate_request_def demo_run_badb64 demo_collaborators isinstance_def)

subsection \<open>Missing challenge\<close>

text \<open>
  C4. For an envelope whose signature verifies and whose message decrypts: if the
  decrypted text decodes to a JSON object that lacks a non-empty \<open>challenge\<close>, validation
  fails with ServerChallengeValidationError (``Missing challenge'').
\<close>

theorem missing_challenge_failure:
  assumes "body \<noteq> []"
    and "json_loads env body = Inr (JObj kvs)"
    and "map_of kvs ''signature'' = Some sg" and "truthy sg"
    and "map_of kvs ''message'' = Some c" and "truthy c"
    and "str_encode env c = Inr m"
    and "b64decode env sg = Inr sb"
    and "verify_signature env secret m sb = Inr ()"
    and "decrypt env private_key c = Inr p"
    and "json_loads env p = Inr (JObj payload)"
    and "lacks payload ''challenge''"
  shows "validate_request env secret private_key body
           = Inl (Exn ServerChallengeValidationError ''Missing challenge'' None)"
  using assms
  unfolding validate_request_def validate_request_run_unfold validate_request_try_unfold
  by (simp add: isinstance_def lacks_def split: option.splits)

theorem missing_challenge_failure_witness:
  "json_loads demo_env ''{\"text\": \"hi\"}'' = Inr (JObj [(''text'', JStr ''hi'')])
   \<and> lacks [(''text'', JStr ''hi'')] ''challenge''
   \<and> validate_request demo_env ''s3cr3t'' ''key'' (envelope_text ''c2ln'' ''m-nochal'')
       = Inl (Exn ServerChallengeValidationError ''Missing challenge'' None)"
proof -
  have absent: "lacks [(''text'', JStr ''hi'')] ''challenge''"
    by (simp add: lacks_def)
  have "validate_request demo_env ''s3cr3t'' ''key'' (envelope_text ''c2ln'' ''m-nochal'')
       = Inl (Exn ServerChallengeValidationError ''Missing challenge'' None)"
    using missing_challenge_failure [of "envelope_text ''c2ln'' ''m-nochal''" demo_env
        "[(''signature'', JStr ''c2ln''), (''message'', JStr ''m-nochal'')]"
        "JStr ''c2ln''" "JStr ''m-nochal''" "bytes_of ''m-nochal''" "bytes_of ''sig''"
        "''s3cr3t''" "''key''" "''{\"text\": \"hi\"}''" "[(''text'', JStr ''hi'')]"]
      absent
    by (simp add: demo_envelope demo_collaborators envelope_def)
  with absent show ?thesis
    by (simp add: demo_collaborators)
qed

subsection \<open>Undecodable payload and failed decryption\<close>

text \<open>
  C5, as the code has it. For an envelope whose signature verifies: if the decrypted text
  does not decode (JSONDecodeError), validation fails with RequestValidationError
  (``Invalid request data'') caused by the decoding error; if decryption itself raises an
  error that is not a RequestValidationError, validation fails with RequestValidationError
  (``Cannot validate request'') caused by that error; a RequestValidationError raised by
  decryption passes unchanged. The two failures have the same class and differ in
  message and cause.
\<close>

theorem parse_and_decrypt_failure_kinds:
  assumes "body \<noteq> []"
    and "json_loads env body = Inr (JObj kvs)"
    and "map_of kvs ''signature'' = Some sg" and "truthy sg"
    and "map_of kvs ''message'' = Some c" and "truthy c"
    and "str_encode env c = Inr m"
    and "b64decode env sg = Inr sb"
    and "verify_signature env secret m sb = Inr ()"
  shows "(decrypt env private_key c = Inr p \<and> json_loads env p = Inl e
            \<and> isinstance e JSONDecodeError \<longrightarrow>
          validate_request env secret private_key body
            = Inl (Exn RequestValidationError ''Invalid request data'' (Some e)))
       \<and> (decrypt env private_key c = Inl e' \<and> \<not> isinstance e' RequestValidationError \<longrightarrow>
          validate_request env secret private_key body
            = Inl (Exn RequestValidationError ''Cannot validate request'' (Some e')))
       \<and> (decrypt env private_key c = Inl e' \<and> isinstance e' RequestValidationError \<longrightarrow>
          validate_request env secret private_key body = Inl e')"
  using assms
  unfolding validate_request_def validate_request_run_unfold validate_request_try_unfold
  by (simp add: isinstance_def)

theorem parse_and_decrypt_failure_kinds_witness:
  "validate_request demo_env ''s3cr3t'' ''key'' (envelope_text ''c2ln'' ''m-garbled'')
       = Inl (Exn RequestValidationError ''Invalid request data''
               (Some (Exn JSONDecodeError ''Expecting value'' None)))
   \<and> validate_request demo_env ''s3cr3t'' ''key'' (envelope_text ''c2ln'' ''m-corrupt'')
       = Inl (Exn RequestValidationError ''Cannot validate request''
               (Some (Exn ValueError ''Decryption failed'' None)))"
proof -
  have inst: "isinstance (Exn JSONDecodeError ''Expecting value'' None) JSONDecodeError"
    "\<not> isinstance (Exn ValueError ''Decryption failed'' None) RequestValidationError"
    by (simp_all add: isinstance_def ValueError_def)
  have garbled:
    "validate_request demo_env ''s3cr3t'' ''key'' (envelope_text ''c2ln'' ''m-garbled'')
       = Inl (Exn RequestValidationError ''Invalid request data''
               (Some (Exn JSONDecodeError ''Expecting value'' None)))"
    using parse_and_decrypt_failure_kinds [of "envelope_text ''c2ln'' ''m-garbled''" demo_env
        "[(''signature'', JStr ''c2ln''), (''message'', JStr ''m-garbled'')]"
        "JStr ''c2ln''" "JStr ''m-garbled''" "bytes_of ''m-garbled''" "bytes_of ''sig''"
        "''s3cr3t''" "''key''" "''not json''" "Exn JSONDecodeError ''Expecting value'' None"]
      inst
    by (simp add: demo_envelope demo_collaborators envelope_def)
  have corrupt:
    "validate_request demo_env ''s3cr3t'' ''key'' (envelope_text ''c2ln'' ''m-corrupt'')
       = Inl (Exn RequestValidationError ''Cannot validate request''
               (Some (Exn ValueError ''Decryption failed'' None)))"
    using parse_and_decrypt_failure_kinds [of "envelope_text ''c2ln'' ''m-corrupt''" demo_env
        "[(''signature'', JStr ''c2ln''), (''message'', JStr ''m-corrupt'')]"
        "JStr ''c2ln''" "JStr ''m-corrupt''" "bytes_of ''m-corrupt''" "bytes_of ''sig''"
        "''s3cr3t''" "''key''" _ _ "Exn ValueError ''Decryption failed'' None"]
      inst
    by (simp add: demo_envelope demo_collaborators envelope_def)
  from garbled corrupt show ?thesis by simp
qed

theorem parse_vs_decrypt_counterexample:
  "decrypt demo_env ''key'' (JStr ''m-garbled'') = Inr ''not json''
   \<and> json_loads demo_env ''not json'' = Inl (Exn JSONDecodeError ''Expecting value'' None)
   \<and> decrypt demo_env ''key'' (JStr ''m-corrupt'')
       = Inl (Exn ValueError ''Decryption failed'' None)
   \<and> raised_class
        (validate_request demo_env ''s3cr3t'' ''key'' (envelope_text ''c2ln'' ''m-garbled''))
       = Some RequestValidationError
   \<and> raised_class
        (validate_request demo_env ''s3cr3t'' ''key'' (envelope_text ''c2ln'' ''m-corrupt''))
       = Some RequestValidationError"
  by (simp add: validate_request_def demo_run_garbled demo_run_corrupt demo_collaborators
        raised_class_def)

subsection \<open>The handlers of the outer \<open>try\<close>\<close>

text \<open>
  C6. An exception that leaves the body of the \<open>try\<close> of \<open>validate_request\<close> and is an
  instance of RequestValidationError reaches the caller unchanged; any other exception
  that leaves it is replaced by RequestValidationError (``Cannot validate request'') with
  the original as cause; and every exception that \<open>validate_request\<close> raises is an
  instance of RequestValidationError.
\<close>

theorem catch_all_normalises:
  "(snd (validate_request_try env secret private_key body) = Inl e
      \<and> isinstance e RequestValidationError \<longrightarrow>
    validate_request env secret private_key body = Inl e)
   \<and> (snd (validate_request_try env secret private_key body) = Inl e
      \<and> \<not> isinstance e RequestValidationError \<longrightarrow>
    validate_request env secret private_key body
      = Inl (Exn RequestValidationError ''Cannot validate request'' (Some e)))
   \<and> (validate_request env secret private_key body = Inl e' \<longrightarrow>
    isinstance e' RequestValidationError)"
  unfolding validate_request_def validate_request_run_unfold
  by (cases "validate_request_try env secret private_key body")
     (auto simp: isinstance_def split: sum.splits)

theorem catch_all_normalises_witness:
  "snd (validate_request_try demo_env ''s3cr3t'' ''key'' (envelope_text ''c2ln'' ''m-nochal''))
     = Inl (Exn ServerChallengeValidationError ''Missing challenge'' None)
   \<and> validate_request demo_env ''s3cr3t'' ''key'' (envelope_text ''c2ln'' ''m-nochal'')
     = Inl (Exn ServerChallengeValidationError ''Missing challenge'' None)
   \<and> snd (validate_request_try demo_env ''s3cr3t'' ''key'' (envelope_text ''c2ln'' ''m-corrupt''))
     = Inl (Exn ValueError ''Decryption failed'' None)
   \<and> validate_request demo_env ''s3cr3t'' ''key'' (envelope_text ''c2ln'' ''m-corrupt'')
     = Inl (Exn RequestValidationError ''Cannot validate request''
             (Some (Exn ValueError ''Decryption failed'' None)))
   \<and> isinstance (Exn RequestValidationError ''Cannot validate request''
                   (Some (Exn ValueError ''Decryption failed'' None)))
        RequestValidationError"
proof -
  have t1: "snd (validate_request_try demo_env ''s3cr3t'' ''key''
                  (envelope_text ''c2ln'' ''m-nochal''))
     = Inl (Exn ServerChallengeValidationError ''Missing challenge'' None)"
    unfolding validate_request_try_unfold
    by (simp add: demo_envelope demo_collaborators envelope_def)
  have t2: "snd (validate_request_try demo_env ''s3cr3t'' ''key''
                  (envelope_text ''c2ln'' ''m-corrupt''))
     = Inl (Exn ValueError ''Decryption failed'' None)"
    unfolding validate_request_try_unfold
    by (simp add: demo_envelope demo_collaborators envelope_def)
  have inst: "isinstance (Exn ServerChallengeValidationError ''Missing challenge'' None)
                RequestValidationError"
    "\<not> isinstance (Exn ValueError ''Decryption failed'' None) RequestValidationError"
    by (simp_all add: isinstance_def ValueError_def)
  have r1: "validate_request demo_env ''s3cr3t'' ''key'' (envelope_text ''c2ln'' ''m-nochal'')
     = Inl (Exn ServerChallengeValidationError ''Missing challenge'' None)"
    using catch_all_normalises [of demo_env "''s3cr3t''" "''key''" "envelope_text ''c2ln'' ''m-nochal''"
        "Exn ServerChallengeValidationError ''Missing challenge'' None"] t1 inst
    by simp
  have r2: "validate_request demo_env ''s3cr3t'' ''key'' (envelope_text ''c2ln'' ''m-corrupt'')
     = Inl (Exn RequestValidationError ''Cannot validate request''
             (Some (Exn ValueError ''Decryption failed'' None)))"
    using catch_all_normalises [of demo_env "''s3cr3t''" "''key''" "envelope_text ''c2ln'' ''m-corrupt''"
        "Exn ValueError ''Decryption failed'' None"] t2 inst
    by simp
  have r3: "isinstance (Exn RequestValidationError ''Cannot validate request''
                   (Some (Exn ValueError ''Decryption failed'' None)))
        RequestValidationError"
    using catch_all_normalises [of demo_env "''s3cr3t''" "''key''" "envelope_text ''c2ln'' ''m-corrupt''" _
        "Exn RequestValidationError ''Cannot validate request''
             (Some (Exn ValueError ''Decryption failed'' None))"] r2
    by simp
  from t1 t2 r1 r2 r3 show ?thesis by simp
qed

subsection \<open>The outbound request object\<close>

text \<open>
  C7, as the code has it. The object built by \<open>make_request\<close> holds no \<open>None\<close> value and
  no key besides \<open>challenge\<close>, \<open>text\<close>, \<open>context\<close>, \<open>params\<close>, \<open>frame\<close>, \<open>history\<close>;
  \<open>challenge\<close> is always present; \<open>context\<close> is always present, with the caller's value
  when that is truthy and the default context otherwise; each of \<open>text\<close>, \<open>params\<close>,
  \<open>frame\<close>, \<open>history\<close> is present exactly when the caller's value is not \<open>None\<close>, with
  that value.
\<close>

theorem request_pruning:
  "(\<forall>(k, v) \<in> set (build_request challenge text context params frame history). v \<noteq> JNull)
   \<and> fst ` set (build_request challenge text context params frame history)
       \<subseteq> {''challenge'', ''text'', ''context'', ''params'', ''frame'', ''history''}
   \<and> map_of (build_request challenge text context params frame history) ''challenge''
       = Some (JStr challenge)
   \<and> map_of (build_request challenge text context params frame history) ''context''
       = Some (if truthy context then context else default_context)
   \<and> map_of (build_request challenge text context params frame history) ''text''
       = (if text = JNull then None else Some text)
   \<and> map_of (build_request challenge text context params frame history) ''params''
       = (if params = JNull then None else Some params)
   \<and> map_of (build_request challenge text context params frame history) ''frame''
       = (if frame = JNull then None else Some frame)
   \<and> map_of (build_request challenge text context params frame history) ''history''
       = (if history = JNull then None else Some history)"
proof -
  have ctx: "(if truthy context then context else default_context) \<noteq> JNull"
    by (cases "context") (simp_all add: default_context_def)
  show ?thesis
    using ctx by (auto simp: build_request_def Let_def)
qed

theorem request_pruning_witness:
  "build_request ''c0ffee'' (JStr ''hi'') JNull JNull (JObj []) JNull
     = [(''challenge'', JStr ''c0ffee''), (''text'', JStr ''hi''),
        (''context'', default_context), (''frame'', JObj [])]
   \<and> JNull \<notin> snd ` set (build_request ''c0ffee'' (JStr ''hi'') JNull JNull (JObj []) JNull)
   \<and> map_of (build_request ''c0ffee'' (JStr ''hi'') JNull JNull (JObj []) JNull) ''params''
       = None"
proof -
  have shape: "build_request ''c0ffee'' (JStr ''hi'') JNull JNull (JObj []) JNull
     = [(''challenge'', JStr ''c0ffee''), (''text'', JStr ''hi''),
        (''context'', default_context), (''frame'', JObj [])]"
    by (simp add: build_request_def default_context_def)
  from request_pruning [of "''c0ffee''" "JStr ''hi''" JNull JNull "JObj []" JNull] shape
  show ?thesis by (simp add: default_context_def)
qed

theorem default_context_counterexample:
  "map_of (build_request ''c0ffee'' (JStr ''hi'') JNull JNull JNull JNull) ''context''
     = Some default_context"
  by (simp add: build_request_def default_context_def)

subsection \<open>The echoed challenge\<close>

text \<open>
  C8, as the code has it. For \<open>make_request\<close> and for \<open>make_health_check\<close>: when the
  platform answers with status 200 and a body that decodes to a JSON object, the call
  returns that object unchanged if its \<open>challenge\<close> is the string generated for this
  call, and raises ClientChallengeValidationError (``Response failed challenge'') if
  \<open>challenge\<close> is absent or is anything else.
\<close>

theorem challenge_echo:
  "(json_dumps env (JObj (build_request (new_challenge src) text context params frame history))
       = Inr encoded_request
     \<and> generate_signature env secret encoded_request = Inr signature
     \<and> requests_post env url
         [(''X-Webex-Assistant-Signature'', signature),
          (''Content-Type'', ''application/octet-stream''),
          (''Accept'', ''application/json'')]
         encoded_request = Inr res
     \<and> status_code res = 200
     \<and> res_json res = Inr (JObj response_body) \<longrightarrow>
     make_request env src secret text url context params frame history
       = (if map_of response_body ''challenge'' = Some (JStr (new_challenge src))
          then Inr (JObj response_body)
          else Inl (Exn ClientChallengeValidationError ''Response failed challenge'' None)))
   \<and> (generate_signature env secret (new_challenge src) = Inr signature'
     \<and> requests_get env url
         [(''X-Webex-Assistant-Signature'', signature'), (''Accept'', ''application/json'')]
         [(''payload'', new_challenge src)] = Inr res'
     \<and> status_code res' = 200
     \<and> res_json res' = Inr (JObj response_body') \<longrightarrow>
     make_health_check env src secret url
       = (if map_of response_body' ''challenge'' = Some (JStr (new_challenge src))
          then Inr (JObj response_body')
          else Inl (Exn ClientChallengeValidationError ''Response failed challenge'' None)))"
  by (auto simp: make_request_def make_health_check_def check_response_def and_then_def
        Let_def split: option.splits)

theorem challenge_echo_witness:
  "make_request (demo_platform (Inr (JObj [(''challenge'', JStr (new_challenge demo_src))])))
       demo_src ''s3cr3t'' (JStr ''hi'') ''http://0.0.0.0:7150/parse'' JNull JNull JNull JNull
     = Inr (JObj [(''challenge'', JStr (new_challenge demo_src))])
   \<and> make_request (demo_platform (Inr (JObj [(''text'', JStr ''ok'')])))
       demo_src ''s3cr3t'' (JStr ''hi'') ''http://0.0.0.0:7150/parse'' JNull JNull JNull JNull
     = Inl (Exn ClientChallengeValidationError ''Response failed challenge'' None)
   \<and> make_health_check
       (demo_platform (Inr (JObj [(''challenge'', JStr (new_challenge demo_src))])))
       demo_src ''s3cr3t'' ''http://0.0.0.0:7150/parse''
     = Inr (JObj [(''challenge'', JStr (new_challenge demo_src))])
   \<and> make_health_check (demo_platform (Inr (JObj [(''text'', JStr ''ok'')])))
       demo_src ''s3cr3t'' ''http://0.0.0.0:7150/parse''
     = Inl (Exn ClientChallengeValidationError ''Response failed challenge'' None)"
  using
    challenge_echo [of "demo_platform (Inr (JObj [(''challenge'', JStr (new_challenge demo_src))]))"
        demo_src "JStr ''hi''" JNull JNull JNull JNull "''<request>''" "''s3cr3t''" "''c2ln''"
        "''http://0.0.0.0:7150/parse''"
        "\<lparr>status_code = 200,
          res_json = Inr (JObj [(''challenge'', JStr (new_challenge demo_src))])\<rparr>"
        "[(''challenge'', JStr (new_challenge demo_src))]" "''c2ln''"
        "\<lparr>status_code = 200,
          res_json = Inr (JObj [(''challenge'', JStr (new_challenge demo_src))])\<rparr>"
        "[(''challenge'', JStr (new_challenge demo_src))]"]
    challenge_echo [of "demo_platform (Inr (JObj [(''text'', JStr ''ok'')]))"
        demo_src "JStr ''hi''" JNull JNull JNull JNull "''<request>''" "''s3cr3t''" "''c2ln''"
        "''http://0.0.0.0:7150/parse''"
        "\<lparr>status_code = 200, res_json = Inr (JObj [(''text'', JStr ''ok'')])\<rparr>"
        "[(''text'', JStr ''ok'')]" "''c2ln''"
        "\<lparr>status_code = 200, res_json = Inr (JObj [(''text'', JStr ''ok'')])\<rparr>"
        "[(''text'', JStr ''ok'')]"]
  by (simp add: demo_platform_simps)

theorem non_object_response_counterexample:
  "make_request (demo_platform (Inr (JArr [])))
       demo_src ''s3cr3t'' (JStr ''hi'') ''http://0.0.0.0:7150/parse'' JNull JNull JNull JNull
     = Inl (Exn AttributeError ''get'' None)
   \<and> make_health_check (demo_platform (Inr (JArr [])))
       demo_src ''s3cr3t'' ''http://0.0.0.0:7150/parse''
     = Inl (Exn AttributeError ''get'' None)
   \<and> \<not> isinstance (Exn AttributeError ''get'' None) ClientChallengeValidationError"
  by (simp add: make_request_def make_health_check_def check_response_def and_then_def
        Let_def demo_platform_simps isinstance_def)

subsection \<open>The form of a challenge\<close>

text \<open>
  C9. The challenge is the hexadecimal writing of 64 bytes of the entropy source: it is
  128 characters long and every character is one of \<open>0123456789abcdef\<close>.
\<close>

theorem challenge_format:
  "length (urandom 64 src) = 64
   \<and> new_challenge src = bytes_hex (urandom 64 src)
   \<and> length (new_challenge src) = 128
   \<and> set (new_challenge src) \<subseteq> set ''0123456789abcdef''"
  using bytes_hex_props [of "urandom 64 src"]
  by (simp add: new_challenge_def urandom_def hex_digits_def)

theorem challenge_format_witness:
  "length (new_challenge demo_src) = 128
   \<and> set (new_challenge demo_src) \<subseteq> set ''0123456789abcdef''"
  using challenge_format [of demo_src] by blast

subsection \<open>The pair returned by a successful validation\<close>

text \<open>
  C10. When \<open>validate_request\<close> returns a pair, its first component is a JSON object, and
  it is exactly what \<open>json.loads\<close> gave for the text that \<open>crypto.decrypt\<close> returned on
  the envelope's message; its second component is the value that this object holds
  under \<open>challenge\<close>.
\<close>

theorem validated_pair_consistent:
  assumes "validate_request env secret private_key body = Inr (request_json, challenge)"
  shows "\<exists>payload j c p.
           request_json = JObj payload
         \<and> map_of payload ''challenge'' = Some challenge
         \<and> json_loads env body = Inr j
         \<and> dict_get j ''message'' (JStr '''') = Inr c
         \<and> decrypt env private_key c = Inr p
         \<and> json_loads env p = Inr request_json"
  using assms
  unfolding validate_request_def validate_request_run_unfold validate_request_try_unfold
  by (cases request_json) (auto split: sum.splits if_splits option.splits)

theorem validated_pair_consistent_witness:
  "validate_request demo_env ''s3cr3t'' ''key'' (envelope_text ''c2ln'' ''m-ok'')
     = Inr (lights, JStr ''abc123'')
   \<and> (\<exists>payload j c p.
         lights = JObj payload
       \<and> map_of payload ''challenge'' = Some (JStr ''abc123'')
       \<and> json_loads demo_env (envelope_text ''c2ln'' ''m-ok'') = Inr j
       \<and> dict_get j ''message'' (JStr '''') = Inr c
       \<and> decrypt demo_env ''key'' c = Inr p
       \<and> json_loads demo_env p = Inr lights)"
proof -
  have ok: "validate_request demo_env ''s3cr3t'' ''key'' (envelope_text ''c2ln'' ''m-ok'')
     = Inr (lights, JStr ''abc123'')"
    by (simp add: validate_request_def demo_run_ok)
  from validated_pair_consistent [OF ok] ok show ?thesis by blast
qed

end
